theory Spec2Isabelle
  imports Main
begin

section \<open>QuickNotes: the client state layer of the notes page\<close>

text \<open>
  The page component \<open>Home\<close> keeps its state in React state cells and talks to a hosted
  backend through asynchronous calls. Each function of the component is embedded as a
  function on an explicit state record. What the backend answers is not decided by the
  client, so every answer is a parameter of the function that awaits it. Besides the
  state cells the record carries two traces: the messages shown with \<open>alert\<close> and the
  requests handed to the backend client, both in the order they happen.

  Strings are lists of 8-bit characters; \<open>length\<close> stands for the \<open>.length\<close> of the
  source string.
\<close>

subsection \<open>Validation: \<open>NoteSchema\<close> and \<open>validateNoteOrAlert\<close>\<close>

text \<open>
  \<open>String.prototype.trim\<close> removes white space and line terminators from both ends.
  In the 8-bit range these are TAB, LF, VT, FF, CR, SPACE and NBSP.
\<close>

definition isSpace :: "char \<Rightarrow> bool" where
  "isSpace c \<longleftrightarrow>
     c = CHR 0x09 \<or> c = CHR 0x0A \<or> c = CHR 0x0B \<or> c = CHR 0x0C \<or> c = CHR 0x0D \<or>
     c = CHR 0x20 \<or> c = CHR 0xA0"

definition trimStart :: "string \<Rightarrow> string" where
  "trimStart v = dropWhile isSpace v"

definition trimEnd :: "string \<Rightarrow> string" where
  "trimEnd v = rev (dropWhile isSpace (rev v))"

definition trim :: "string \<Rightarrow> string" where
  "trim v = trimStart (trimEnd v)"

text \<open>
  A string schema of the validation library is a list of checks, run in the order in
  which they were chained: \<open>.trim()\<close> replaces the value, \<open>.min(n, msg)\<close> and
  \<open>.max(n, msg)\<close> compare the length of the current value and add an issue with
  their message. A failed check does not stop the later ones.
\<close>

datatype check = Trim | Min nat string | Max nat string

fun parseString :: "check list \<Rightarrow> string \<Rightarrow> string list \<Rightarrow> string \<times> string list" where
  "parseString [] v issues = (v, issues)"
| "parseString (Trim # cs) v issues = parseString cs (trim v) issues"
| "parseString (Min n msg # cs) v issues =
     parseString cs v (if length v < n then issues @ [msg] else issues)"
| "parseString (Max n msg # cs) v issues =
     parseString cs v (if n < length v then issues @ [msg] else issues)"

definition titleSchema :: "check list" where
  "titleSchema = [Trim, Max 80 ''Title must be 80 characters or less'']"

definition contentSchema :: "check list" where
  "contentSchema =
     [Trim, Min 1 ''Content cannot be empty'', Max 5000 ''Content must be 5000 characters or less'']"

record draft =
  clean_title :: string
  clean_content :: string

text \<open>
  \<open>NoteSchema.safeParse\<close>: the object schema parses its keys in the order of its shape,
  \<open>title\<close> before \<open>content\<close>, and collects the issues in that order. The parse succeeds
  when there is no issue; \<open>Inl\<close> carries \<open>error.issues\<close>, \<open>Inr\<close> carries \<open>data\<close>.
\<close>

definition safeParse :: "string \<Rightarrow> string \<Rightarrow> string list + draft" where
  "safeParse t c =
     (case parseString titleSchema t [] of (t', issues1) \<Rightarrow>
      case parseString contentSchema c issues1 of (c', issues) \<Rightarrow>
        if issues = [] then Inr \<lparr>clean_title = t', clean_content = c'\<rparr> else Inl issues)"

text \<open>\<open>parsed.error.issues[0]?.message ?? "Invalid input"\<close>\<close>

definition firstMessage :: "string list \<Rightarrow> string" where
  "firstMessage issues = (case issues of [] \<Rightarrow> ''Invalid input'' | m # _ \<Rightarrow> m)"

subsection \<open>Data and state\<close>

record Note =
  note_id :: string
  note_title :: string
  note_content :: string
  note_created_at :: string

text \<open>The user of a session, as far as the page reads it: \<open>user.id\<close> and \<open>user.email\<close>.\<close>

record user =
  user_id :: string
  user_email :: "string option"

text \<open>
  The requests the page hands to the backend client. \<open>SelectNotes cols col asc\<close> is
  \<open>from("notes").select(cols).order(col, {ascending: asc})\<close>.
\<close>

datatype request =
    GetSession
  | AuthSignUp string string
  | AuthSignIn string string
  | AuthSignOut
  | SelectNotes string string bool
  | InsertNote string string string
  | DeleteNote string
  | UpdateNote string string string

record state =
  email :: string
  password :: string
  editingId :: "string option"
  userEmail :: "string option"
  "notes" :: "Note list"
  title :: string
  content :: string
  loading :: bool
  alerts :: "string list"
  requests :: "request list"

text \<open>The initial values of the \<open>useState\<close> cells, with empty traces.\<close>

definition initial :: state where
  "initial = \<lparr>email = [], password = [], editingId = None, userEmail = None, notes = [],
     title = [], content = [], loading = False, alerts = [], requests = []\<rparr>"

definition alert :: "string \<Rightarrow> state \<Rightarrow> state" where
  "alert msg s = s\<lparr>alerts := alerts s @ [msg]\<rparr>"

definition send :: "request \<Rightarrow> state \<Rightarrow> state" where
  "send r s = s\<lparr>requests := requests s @ [r]\<rparr>"

text \<open>
  The truth value of a \<open>string | null\<close> in a condition: \<open>null\<close> and the empty string
  are false.
\<close>

fun truthy :: "string option \<Rightarrow> bool" where
  "truthy None = False"
| "truthy (Some v) = (v \<noteq> [])"

definition validateNoteOrAlert :: "string \<Rightarrow> string \<Rightarrow> state \<Rightarrow> draft option \<times> state" where
  "validateNoteOrAlert t c s =
     (case safeParse t c of
        Inl issues \<Rightarrow> (None, alert (firstMessage issues) s)
      | Inr clean \<Rightarrow> (Some clean, s))"

subsection \<open>Session and note list\<close>

definition refreshSession :: "user option \<Rightarrow> state \<Rightarrow> state" where
  "refreshSession sess s =
     (send GetSession s)\<lparr>userEmail := (case sess of None \<Rightarrow> None | Some u \<Rightarrow> user_email u)\<rparr>"

text \<open>The answer to the select: \<open>data\<close> and \<open>error\<close>, each possibly \<open>null\<close>.\<close>

record select_response =
  sel_data :: "Note list option"
  sel_error :: "string option"

text \<open>
  \<open>loadNotes\<close> reads \<open>editingId\<close> from the closure of the render that created it, and
  writes through the state setters. The captured value is the first argument \<open>eid\<close>:
  for a call from a handler of the current render it is the current \<open>editingId\<close>; for
  the subscription installed by the mount effect (dependency list \<open>[]\<close>) it is the
  value of the first render, \<open>null\<close>. \<open>sess\<close> is what \<open>getSession\<close> resolves to and
  \<open>resp\<close> the answer to the select.
\<close>

definition loadNotes :: "string option \<Rightarrow> user option \<Rightarrow> select_response \<Rightarrow> state \<Rightarrow> state" where
  "loadNotes eid sess resp s =
     (let s1 = send GetSession (s\<lparr>loading := True\<rparr>) in
      case sess of
        None \<Rightarrow> s1\<lparr>notes := [], loading := False\<rparr>
      | Some u \<Rightarrow>
          let s2 = send (SelectNotes ''id,title,content,created_at'' ''created_at'' False) s1;
              s3 = (case (sel_error resp, sel_data resp) of
                      (None, Some nextNotes) \<Rightarrow>
                        let s4 = s2\<lparr>notes := nextNotes\<rparr> in
                        if truthy eid \<and> \<not> list_ex (\<lambda>n. Some (note_id n) = eid) nextNotes
                        then s4\<lparr>editingId := None, title := [], content := []\<rparr>
                        else s4
                    | _ \<Rightarrow> s2)
          in s3\<lparr>loading := False\<rparr>)"

text \<open>
  The handler registered with \<open>onAuthStateChange\<close> in the mount effect. It calls the
  \<open>refreshSession\<close> and \<open>loadNotes\<close> of the first render, where \<open>editingId\<close> is \<open>null\<close>.
\<close>

definition onAuthStateChange :: "user option \<Rightarrow> select_response \<Rightarrow> state \<Rightarrow> state" where
  "onAuthStateChange sess resp s = loadNotes (editingId initial) sess resp (refreshSession sess s)"

text \<open>The Refresh button calls the \<open>loadNotes\<close> of the current render.\<close>

definition refresh :: "user option \<Rightarrow> select_response \<Rightarrow> state \<Rightarrow> state" where
  "refresh sess resp s = loadNotes (editingId s) sess resp s"

subsection \<open>Mutating operations\<close>

text \<open>
  A mutating function runs up to the \<open>await\<close> of its one mutating request and continues
  when the answer arrives. The first half ends either with the function returned or
  with the request outstanding; the state it carries is the state at that moment.
\<close>

datatype step = Returned state | Outstanding state

definition signUp_send :: "state \<Rightarrow> step" where
  "signUp_send s = Outstanding (send (AuthSignUp (email s) (password s)) (s\<lparr>loading := True\<rparr>))"

definition signUp_resume :: "string option \<Rightarrow> state \<Rightarrow> state" where
  "signUp_resume err s =
     (let s1 = s\<lparr>loading := False\<rparr> in
      case err of
        Some msg \<Rightarrow> alert msg s1
      | None \<Rightarrow> alert ''Signed up! If email confirmation is on, check your inbox.'' s1)"

definition signIn_send :: "state \<Rightarrow> step" where
  "signIn_send s = Outstanding (send (AuthSignIn (email s) (password s)) (s\<lparr>loading := True\<rparr>))"

definition signIn_resume :: "string option \<Rightarrow> state \<Rightarrow> state" where
  "signIn_resume err s =
     (let s1 = s\<lparr>loading := False\<rparr> in
      case err of Some msg \<Rightarrow> alert msg s1 | None \<Rightarrow> s1)"

definition signOut_send :: "state \<Rightarrow> step" where
  "signOut_send s = Outstanding (send AuthSignOut s)"

text \<open>The answer to the sign-out request is dropped.\<close>

definition signOut_resume :: "state \<Rightarrow> state" where
  "signOut_resume s = s"

text \<open>\<open>addNote\<close>: \<open>sess\<close> is what its own \<open>getSession\<close> resolves to.\<close>

definition addNote_send :: "user option \<Rightarrow> state \<Rightarrow> step" where
  "addNote_send sess s =
     (let s1 = send GetSession (s\<lparr>loading := True\<rparr>) in
      case sess of
        None \<Rightarrow> Returned ((alert ''Please sign in.'' s1)\<lparr>loading := False\<rparr>)
      | Some u \<Rightarrow>
          (case validateNoteOrAlert (title s) (content s) s1 of
             (None, s2) \<Rightarrow> Returned (s2\<lparr>loading := False\<rparr>)
           | (Some clean, s2) \<Rightarrow>
               Outstanding (send (InsertNote (user_id u) (clean_title clean) (clean_content clean)) s2)))"

text \<open>
  The continuation after the insert: \<open>err\<close> is the error of the insert, \<open>eid\<close> the
  \<open>editingId\<close> of the render that created the handler, \<open>rsess\<close> and \<open>rresp\<close> the answers
  to the reload.
\<close>

definition addNote_resume ::
  "string option \<Rightarrow> string option \<Rightarrow> user option \<Rightarrow> select_response \<Rightarrow> state \<Rightarrow> state" where
  "addNote_resume eid err rsess rresp s =
     (let s1 = s\<lparr>loading := False\<rparr> in
      case err of
        Some msg \<Rightarrow> alert msg s1
      | None \<Rightarrow> loadNotes eid rsess rresp (s1\<lparr>title := [], content := []\<rparr>))"

definition addNote ::
  "user option \<Rightarrow> string option \<Rightarrow> user option \<Rightarrow> select_response \<Rightarrow> state \<Rightarrow> state" where
  "addNote sess err rsess rresp s =
     (case addNote_send sess s of
        Returned s' \<Rightarrow> s'
      | Outstanding s' \<Rightarrow> addNote_resume (editingId s) err rsess rresp s')"

definition deleteNote_send :: "string \<Rightarrow> state \<Rightarrow> step" where
  "deleteNote_send i s = Outstanding (send (DeleteNote i) (s\<lparr>loading := True\<rparr>))"

definition deleteNote_resume ::
  "string option \<Rightarrow> string option \<Rightarrow> user option \<Rightarrow> select_response \<Rightarrow> state \<Rightarrow> state" where
  "deleteNote_resume eid err rsess rresp s =
     (let s1 = s\<lparr>loading := False\<rparr> in
      case err of
        Some msg \<Rightarrow> alert msg s1
      | None \<Rightarrow> loadNotes eid rsess rresp s1)"

definition deleteNote ::
  "string \<Rightarrow> string option \<Rightarrow> user option \<Rightarrow> select_response \<Rightarrow> state \<Rightarrow> state" where
  "deleteNote i err rsess rresp s =
     (case deleteNote_send i s of
        Returned s' \<Rightarrow> s'
      | Outstanding s' \<Rightarrow> deleteNote_resume (editingId s) err rsess rresp s')"

definition updateNote_send :: "state \<Rightarrow> step" where
  "updateNote_send s =
     (case editingId s of
        None \<Rightarrow> Returned s
      | Some i \<Rightarrow>
          if i = [] then Returned s
          else
            (case validateNoteOrAlert (title s) (content s) s of
               (None, s1) \<Rightarrow> Returned s1
             | (Some clean, s1) \<Rightarrow>
                 Outstanding
                   (send (UpdateNote i (clean_title clean) (clean_content clean))
                      (s1\<lparr>loading := True\<rparr>))))"

text \<open>
  The body of the \<open>try\<close> after the update has answered, followed by the \<open>finally\<close>. The
  reload still sees the \<open>editingId\<close> captured by the handler, \<open>eid\<close>.
\<close>

definition updateNote_resume ::
  "string option \<Rightarrow> string option \<Rightarrow> user option \<Rightarrow> select_response \<Rightarrow> state \<Rightarrow> state" where
  "updateNote_resume eid err rsess rresp s =
     (let s1 = (case err of
                  Some msg \<Rightarrow> alert msg s
                | None \<Rightarrow>
                    loadNotes eid rsess rresp (s\<lparr>editingId := None, title := [], content := []\<rparr>))
      in s1\<lparr>loading := False\<rparr>)"

definition updateNote ::
  "string option \<Rightarrow> user option \<Rightarrow> select_response \<Rightarrow> state \<Rightarrow> state" where
  "updateNote err rsess rresp s =
     (case updateNote_send s of
        Returned s' \<Rightarrow> s'
      | Outstanding s' \<Rightarrow> updateNote_resume (editingId s) err rsess rresp s')"

text \<open>
  The submit button: \<open>onClick={editingId ? updateNote : addNote}\<close>. \<open>sess\<close> is the
  session at the time of the click; only \<open>addNote\<close> asks for it.
\<close>

definition submit_send :: "user option \<Rightarrow> state \<Rightarrow> step" where
  "submit_send sess s = (if truthy (editingId s) then updateNote_send s else addNote_send sess s)"

definition submit ::
  "user option \<Rightarrow> string option \<Rightarrow> user option \<Rightarrow> select_response \<Rightarrow> state \<Rightarrow> state" where
  "submit sess err rsess rresp s =
     (if truthy (editingId s) then updateNote err rsess rresp s
      else addNote sess err rsess rresp s)"

text \<open>
  Signing out: the request is sent, its answer dropped, and the backend client reports
  the change of the auth state to the subscribed handler, with no session left.
\<close>

definition signOut :: "select_response \<Rightarrow> state \<Rightarrow> state" where
  "signOut resp s =
     (case signOut_send s of
        Returned s' \<Rightarrow> s'
      | Outstanding s' \<Rightarrow> onAuthStateChange None resp (signOut_resume s'))"

section \<open>Properties\<close>

subsection \<open>The validator\<close>

lemma parse_title:
  "parseString titleSchema t is =
     (trim t, if 80 < length (trim t) then is @ [''Title must be 80 characters or less''] else is)"
  by (simp add: titleSchema_def)

lemma parse_content:
  "parseString contentSchema c is =
     (trim c,
      if length (trim c) < 1 then is @ [''Content cannot be empty'']
      else if 5000 < length (trim c) then is @ [''Content must be 5000 characters or less'']
      else is)"
  by (simp add: contentSchema_def)

lemma safeParse_ok:
  "length (trim t) \<le> 80 \<Longrightarrow> 1 \<le> length (trim c) \<Longrightarrow> length (trim c) \<le> 5000 \<Longrightarrow>
   safeParse t c = Inr \<lparr>clean_title = trim t, clean_content = trim c\<rparr>"
  by (auto simp add: safeParse_def parse_title parse_content)

lemma safeParse_title:
  "80 < length (trim t) \<Longrightarrow>
   \<exists>rest. safeParse t c = Inl (''Title must be 80 characters or less'' # rest)"
  by (simp add: safeParse_def parse_title parse_content)

lemma safeParse_empty:
  "length (trim t) \<le> 80 \<Longrightarrow> length (trim c) < 1 \<Longrightarrow>
   safeParse t c = Inl [''Content cannot be empty'']"
  by (simp add: safeParse_def parse_title parse_content)

lemma safeParse_long:
  "length (trim t) \<le> 80 \<Longrightarrow> 5000 < length (trim c) \<Longrightarrow>
   safeParse t c = Inl [''Content must be 5000 characters or less'']"
  by (auto simp add: safeParse_def parse_title parse_content)

lemma trim_replicate: "\<not> isSpace x \<Longrightarrow> trim (replicate n x) = replicate n x"
  by (simp add: trim_def trimStart_def trimEnd_def)

text \<open>
  Claim C4. A title of at most 80 and a content of 1 to 5000 characters, both counted
  after trimming, pass validation, and the result holds the two trimmed values. Every
  other input fails, and the one message shown is that of the first violated rule in
  the order title too long, content empty, content too long.
\<close>

theorem validator_total:
  "validateNoteOrAlert t c s =
     (if length (trim t) \<le> 80 \<and> 1 \<le> length (trim c) \<and> length (trim c) \<le> 5000
      then (Some \<lparr>clean_title = trim t, clean_content = trim c\<rparr>, s)
      else (None,
            alert (if 80 < length (trim t) then ''Title must be 80 characters or less''
                   else if length (trim c) < 1 then ''Content cannot be empty''
                   else ''Content must be 5000 characters or less'') s))"
proof (cases "80 < length (trim t)")
  case True
  then obtain rest where "safeParse t c = Inl (''Title must be 80 characters or less'' # rest)"
    using safeParse_title by blast
  with True show ?thesis
    by (simp add: validateNoteOrAlert_def firstMessage_def)
next
  case False
  then have t: "length (trim t) \<le> 80" by simp
  consider "length (trim c) < 1" | "5000 < length (trim c)"
    | "1 \<le> length (trim c)" "length (trim c) \<le> 5000"
    by linarith
  then show ?thesis
  proof cases
    case 1
    with t show ?thesis
      by (simp add: validateNoteOrAlert_def firstMessage_def safeParse_empty)
  next
    case 2
    with t show ?thesis
      by (auto simp add: validateNoteOrAlert_def firstMessage_def safeParse_long)
  next
    case 3
    with t show ?thesis
      by (simp add: validateNoteOrAlert_def safeParse_ok)
  qed
qed


text \<open>
  Claim C3, as the code has it. When validation fails, the message shown is exactly
  \<open>Title must be 80 characters or less\<close> when the trimmed title is longer than 80
  characters; otherwise it is exactly \<open>Content cannot be empty\<close> when the trimmed
  content is empty and exactly \<open>Content must be 5000 characters or less\<close> when the
  trimmed content is longer than 5000 characters.
\<close>

theorem validation_messages:
  "fst (validateNoteOrAlert t c s) = None \<Longrightarrow>
     (80 < length (trim t) \<longrightarrow>
        snd (validateNoteOrAlert t c s) = alert ''Title must be 80 characters or less'' s) \<and>
     (length (trim t) \<le> 80 \<and> trim c = [] \<longrightarrow>
        snd (validateNoteOrAlert t c s) = alert ''Content cannot be empty'' s) \<and>
     (length (trim t) \<le> 80 \<and> 5000 < length (trim c) \<longrightarrow>
        snd (validateNoteOrAlert t c s) = alert ''Content must be 5000 characters or less'' s)"
  using safeParse_title [of t c] safeParse_empty [of t c] safeParse_long [of t c]
  by (auto simp add: validateNoteOrAlert_def firstMessage_def)

lemma not_space_a: "\<not> isSpace (CHR ''a'')"
  by (simp add: isSpace_def)

lemma trim_ok: "trim ''ok'' = ''ok''"
  by (simp add: trim_def trimStart_def trimEnd_def isSpace_def)

text \<open>
  A title of 81 letters with the content \<open>ok\<close> fails validation on the title rule, and
  the message shown is not \<open>Title too long\<close>.
\<close>

theorem title_message_counterexample:
  "80 < length (trim (replicate 81 (CHR ''a''))) \<and>
   fst (validateNoteOrAlert (replicate 81 (CHR ''a'')) ''ok'' initial) = None \<and>
   alerts (snd (validateNoteOrAlert (replicate 81 (CHR ''a'')) ''ok'' initial)) \<noteq> [''Title too long'']"
proof -
  have "safeParse (replicate 81 (CHR ''a'')) ''ok'' = Inl [''Title must be 80 characters or less'']"
    by (simp add: safeParse_def parse_title parse_content trim_replicate not_space_a trim_ok)
  then show ?thesis
    by (simp add: validateNoteOrAlert_def firstMessage_def alert_def initial_def
        trim_replicate not_space_a)
qed

theorem validation_messages_witness:
  "fst (validateNoteOrAlert (replicate 81 (CHR ''a'')) [] initial) = None \<and>
   80 < length (trim (replicate 81 (CHR ''a''))) \<and>
   snd (validateNoteOrAlert (replicate 81 (CHR ''a'')) [] initial) =
     alert ''Title must be 80 characters or less'' initial \<and>
   fst (validateNoteOrAlert ''t'' ''  '' initial) = None \<and>
   length (trim ''t'') \<le> 80 \<and> trim ''  '' = [] \<and>
   snd (validateNoteOrAlert ''t'' ''  '' initial) = alert ''Content cannot be empty'' initial \<and>
   fst (validateNoteOrAlert ''t'' (replicate 5001 (CHR ''a'')) initial) = None \<and>
   length (trim ''t'') \<le> 80 \<and> 5000 < length (trim (replicate 5001 (CHR ''a''))) \<and>
   snd (validateNoteOrAlert ''t'' (replicate 5001 (CHR ''a'')) initial) =
     alert ''Content must be 5000 characters or less'' initial"
proof -
  have a: "trim (replicate 81 (CHR ''a'')) = replicate 81 (CHR ''a'')"
    and b: "trim (replicate 5001 (CHR ''a'')) = replicate 5001 (CHR ''a'')"
    by (simp_all add: trim_replicate not_space_a)
  have c: "trim ''t'' = ''t''" and d: "trim ''  '' = []" and e: "trim [] = []"
    by (simp_all add: trim_def trimStart_def trimEnd_def isSpace_def)
  have f1: "fst (validateNoteOrAlert (replicate 81 (CHR ''a'')) [] initial) = None"
    using safeParse_title [of "replicate 81 (CHR ''a'')" "[]"]
    by (auto simp add: validateNoteOrAlert_def a)
  have f2: "fst (validateNoteOrAlert ''t'' ''  '' initial) = None"
    using safeParse_empty [of "''t''" "''  ''"]
    by (simp add: validateNoteOrAlert_def c d)
  have f3: "fst (validateNoteOrAlert ''t'' (replicate 5001 (CHR ''a'')) initial) = None"
    using safeParse_long [of "''t''" "replicate 5001 (CHR ''a'')"]
    by (simp add: validateNoteOrAlert_def b c)
  show ?thesis
    using validation_messages [OF f1] validation_messages [OF f2] validation_messages [OF f3]
    by (simp add: a b c d f1 f2 f3)
qed

theorem validator_total_witness:
  "validateNoteOrAlert ''  Shopping '' '' milk, eggs  '' initial =
     (Some \<lparr>clean_title = ''Shopping'', clean_content = ''milk, eggs''\<rparr>, initial) \<and>
   validateNoteOrAlert (replicate 81 (CHR ''a'')) ''  '' initial =
     (None, alert ''Title must be 80 characters or less'' initial)"
proof -
  have a: "trim (replicate 81 (CHR ''a'')) = replicate 81 (CHR ''a'')"
    by (simp add: trim_replicate not_space_a)
  have b: "trim ''  Shopping '' = ''Shopping''" "trim '' milk, eggs  '' = ''milk, eggs''"
    "trim ''  '' = []"
    by (simp_all add: trim_def trimStart_def trimEnd_def isSpace_def)
  show ?thesis
    using validator_total [of "''  Shopping ''" "'' milk, eggs  ''" initial]
      validator_total [of "replicate 81 (CHR ''a'')" "''  ''" initial]
    by (simp add: a b)
qed

subsection \<open>Loading the note list\<close>

lemma loadNotes_no_session:
  "loadNotes eid None resp s =
     s\<lparr>notes := [], loading := False, requests := requests s @ [GetSession]\<rparr>"
  by (simp add: loadNotes_def send_def)

lemma loadNotes_fetched:
  "sel_error resp = None \<Longrightarrow> sel_data resp = Some ns \<Longrightarrow>
   loadNotes eid (Some u) resp s =
     (let s' = s\<lparr>notes := ns, loading := False,
                 requests := requests s @
                   [GetSession, SelectNotes ''id,title,content,created_at'' ''created_at'' False]\<rparr>
      in if truthy eid \<and> \<not> list_ex (\<lambda>n. Some (note_id n) = eid) ns
         then s'\<lparr>editingId := None, title := [], content := []\<rparr> else s')"
  by (simp add: loadNotes_def send_def Let_def)

lemma loadNotes_failed:
  "sel_error resp \<noteq> None \<or> sel_data resp = None \<Longrightarrow>
   loadNotes eid (Some u) resp s =
     s\<lparr>loading := False,
       requests := requests s @
         [GetSession, SelectNotes ''id,title,content,created_at'' ''created_at'' False]\<rparr>"
  by (auto simp add: loadNotes_def send_def Let_def split: option.splits)

text \<open>
  Claim C5. Without a session, \<open>loadNotes\<close> empties the note list and returns after
  \<open>getSession\<close>, without sending the select. With a session, when the select answers
  with data and no error, the note list becomes exactly the answered list, whatever it
  held before, and the one select sent asks for the order \<open>created_at\<close> descending.
\<close>

theorem loadNotes_replaces:
  "notes (loadNotes eid None resp s) = [] \<and>
   requests (loadNotes eid None resp s) = requests s @ [GetSession] \<and>
   (sel_error resp = None \<and> sel_data resp = Some ns \<longrightarrow>
      notes (loadNotes eid (Some u) resp s) = ns \<and>
      requests (loadNotes eid (Some u) resp s) =
        requests s @ [GetSession, SelectNotes ''id,title,content,created_at'' ''created_at'' False])"
  by (simp add: loadNotes_no_session loadNotes_fetched Let_def)

theorem loadNotes_replaces_witness:
  "notes (loadNotes None None \<lparr>sel_data = None, sel_error = None\<rparr>
     (initial\<lparr>notes := [\<lparr>note_id = ''n1'', note_title = ''T'', note_content = ''C'',
                            note_created_at = ''2024-01-01''\<rparr>]\<rparr>)) = [] \<and>
   notes (loadNotes None (Some \<lparr>user_id = ''u1'', user_email = Some ''a@x.org''\<rparr>)
     \<lparr>sel_data = Some [\<lparr>note_id = ''n2'', note_title = ''U'', note_content = ''D'',
                         note_created_at = ''2024-02-01''\<rparr>], sel_error = None\<rparr>
     (initial\<lparr>notes := [\<lparr>note_id = ''n1'', note_title = ''T'', note_content = ''C'',
                            note_created_at = ''2024-01-01''\<rparr>]\<rparr>)) =
     [\<lparr>note_id = ''n2'', note_title = ''U'', note_content = ''D'',
       note_created_at = ''2024-02-01''\<rparr>]"
  using loadNotes_replaces [of None "\<lparr>sel_data = None, sel_error = None\<rparr>"
      "initial\<lparr>notes := [\<lparr>note_id = ''n1'', note_title = ''T'', note_content = ''C'',
                            note_created_at = ''2024-01-01''\<rparr>]\<rparr>"]
    loadNotes_replaces [of None
      "\<lparr>sel_data = Some [\<lparr>note_id = ''n2'', note_title = ''U'', note_content = ''D'',
                         note_created_at = ''2024-02-01''\<rparr>], sel_error = None\<rparr>"
      "initial\<lparr>notes := [\<lparr>note_id = ''n1'', note_title = ''T'', note_content = ''C'',
                            note_created_at = ''2024-01-01''\<rparr>]\<rparr>"
      "[\<lparr>note_id = ''n2'', note_title = ''U'', note_content = ''D'',
         note_created_at = ''2024-02-01''\<rparr>]"
      "\<lparr>user_id = ''u1'', user_email = Some ''a@x.org''\<rparr>"]
  by simp

text \<open>
  Claim C9. Two calls of \<open>loadNotes\<close> in succession, with the same session and the same
  answer of the backend, leave the same note list after the second as after the first.
\<close>

theorem loadNotes_idempotent:
  "notes (loadNotes eid2 sess resp (loadNotes eid1 sess resp s)) =
   notes (loadNotes eid1 sess resp s)"
proof (cases sess)
  case None
  then show ?thesis by (simp add: loadNotes_no_session)
next
  case (Some u)
  show ?thesis
  proof (cases "sel_error resp = None \<and> (\<exists>ns. sel_data resp = Some ns)")
    case True
    then obtain ns where "sel_error resp = None" "sel_data resp = Some ns" by blast
    with Some show ?thesis by (simp add: loadNotes_fetched Let_def)
  next
    case False
    then have "sel_error resp \<noteq> None \<or> sel_data resp = None" by auto
    with Some show ?thesis by (simp add: loadNotes_failed)
  qed
qed

theorem loadNotes_idempotent_witness:
  "notes (loadNotes None (Some \<lparr>user_id = ''u1'', user_email = Some ''a@x.org''\<rparr>)
     \<lparr>sel_data = Some [\<lparr>note_id = ''n2'', note_title = ''U'', note_content = ''D'',
                         note_created_at = ''2024-02-01''\<rparr>], sel_error = None\<rparr>
     (loadNotes None (Some \<lparr>user_id = ''u1'', user_email = Some ''a@x.org''\<rparr>)
        \<lparr>sel_data = Some [\<lparr>note_id = ''n2'', note_title = ''U'', note_content = ''D'',
                            note_created_at = ''2024-02-01''\<rparr>], sel_error = None\<rparr>
        initial)) =
   notes (loadNotes None (Some \<lparr>user_id = ''u1'', user_email = Some ''a@x.org''\<rparr>)
     \<lparr>sel_data = Some [\<lparr>note_id = ''n2'', note_title = ''U'', note_content = ''D'',
                         note_created_at = ''2024-02-01''\<rparr>], sel_error = None\<rparr>
     initial)"
  by (rule loadNotes_idempotent)

text \<open>
  The load of the current render discards an edit target that the answered list lacks,
  both from the Refresh button and in the reload after a delete.
\<close>

lemma refresh_discards_missing_target:
  "truthy (editingId s) \<Longrightarrow> sel_error resp = None \<Longrightarrow> sel_data resp = Some ns \<Longrightarrow>
   \<not> list_ex (\<lambda>n. Some (note_id n) = editingId s) ns \<Longrightarrow>
   refresh (Some u) resp s =
     s\<lparr>notes := ns, loading := False,
       requests := requests s @
         [GetSession, SelectNotes ''id,title,content,created_at'' ''created_at'' False],
       editingId := None, title := [], content := []\<rparr>"
  by (simp add: refresh_def loadNotes_fetched Let_def)

lemma deleteNote_discards_target:
  "truthy (editingId s) \<Longrightarrow> sel_error resp = None \<Longrightarrow> sel_data resp = Some ns \<Longrightarrow>
   \<not> list_ex (\<lambda>n. Some (note_id n) = editingId s) ns \<Longrightarrow>
   deleteNote i None (Some u) resp s =
     s\<lparr>notes := ns, loading := False,
       requests := requests s @
         [DeleteNote i, GetSession,
          SelectNotes ''id,title,content,created_at'' ''created_at'' False],
       editingId := None, title := [], content := []\<rparr>"
  by (simp add: deleteNote_def deleteNote_send_def deleteNote_resume_def loadNotes_fetched
      send_def Let_def)

text \<open>The load of the auth subscription never touches the edit target or the draft.\<close>

lemma onAuthStateChange_edit_state:
  "editingId (onAuthStateChange sess resp s) = editingId s \<and>
   title (onAuthStateChange sess resp s) = title s \<and>
   content (onAuthStateChange sess resp s) = content s"
  by (simp add: onAuthStateChange_def loadNotes_def refreshSession_def send_def initial_def
      Let_def split: option.splits)

text \<open>
  Claim C6 says that a successful load whose list lacks the note of the pending edit
  clears the edit target and its draft. The load started by the auth subscription does
  not: while note \<open>n1\<close> is being edited, an auth event with a live session and an
  answered list without \<open>n1\<close> replaces the list and keeps the edit target and draft.
\<close>

theorem onAuthStateChange_keeps_missing_target:
  "notes (onAuthStateChange (Some \<lparr>user_id = ''u1'', user_email = Some ''a@x.org''\<rparr>)
     \<lparr>sel_data = Some [], sel_error = None\<rparr>
     (initial\<lparr>userEmail := Some ''a@x.org'', editingId := Some ''n1'', title := ''T'',
        content := ''C'',
        notes := [\<lparr>note_id = ''n1'', note_title = ''T'', note_content = ''C'',
                   note_created_at = ''2024-01-01''\<rparr>]\<rparr>)) = [] \<and>
   editingId (onAuthStateChange (Some \<lparr>user_id = ''u1'', user_email = Some ''a@x.org''\<rparr>)
     \<lparr>sel_data = Some [], sel_error = None\<rparr>
     (initial\<lparr>userEmail := Some ''a@x.org'', editingId := Some ''n1'', title := ''T'',
        content := ''C'',
        notes := [\<lparr>note_id = ''n1'', note_title = ''T'', note_content = ''C'',
                   note_created_at = ''2024-01-01''\<rparr>]\<rparr>)) = Some ''n1'' \<and>
   title (onAuthStateChange (Some \<lparr>user_id = ''u1'', user_email = Some ''a@x.org''\<rparr>)
     \<lparr>sel_data = Some [], sel_error = None\<rparr>
     (initial\<lparr>userEmail := Some ''a@x.org'', editingId := Some ''n1'', title := ''T'',
        content := ''C'',
        notes := [\<lparr>note_id = ''n1'', note_title = ''T'', note_content = ''C'',
                   note_created_at = ''2024-01-01''\<rparr>]\<rparr>)) = ''T''"
  by (simp add: onAuthStateChange_def loadNotes_fetched refreshSession_def send_def
      initial_def Let_def)

subsection \<open>Signing out\<close>

lemma signOut_state:
  "signOut resp s =
     s\<lparr>userEmail := None, notes := [], loading := False,
       requests := requests s @ [AuthSignOut, GetSession, GetSession]\<rparr>"
  by (simp add: signOut_def signOut_send_def signOut_resume_def onAuthStateChange_def
      refreshSession_def loadNotes_no_session send_def)

text \<open>
  Claim C1 says that signing out empties the note list and clears the edit target with
  its draft. Signing out while note \<open>n1\<close> is loaded and being edited empties the list,
  but the edit target and the draft title and content stay as they were.
\<close>

theorem signOut_keeps_edit_target:
  "notes (signOut \<lparr>sel_data = None, sel_error = None\<rparr>
     (initial\<lparr>userEmail := Some ''a@x.org'', editingId := Some ''n1'', title := ''T'',
        content := ''C'',
        notes := [\<lparr>note_id = ''n1'', note_title = ''T'', note_content = ''C'',
                   note_created_at = ''2024-01-01''\<rparr>]\<rparr>)) = [] \<and>
   editingId (signOut \<lparr>sel_data = None, sel_error = None\<rparr>
     (initial\<lparr>userEmail := Some ''a@x.org'', editingId := Some ''n1'', title := ''T'',
        content := ''C'',
        notes := [\<lparr>note_id = ''n1'', note_title = ''T'', note_content = ''C'',
                   note_created_at = ''2024-01-01''\<rparr>]\<rparr>)) = Some ''n1'' \<and>
   title (signOut \<lparr>sel_data = None, sel_error = None\<rparr>
     (initial\<lparr>userEmail := Some ''a@x.org'', editingId := Some ''n1'', title := ''T'',
        content := ''C'',
        notes := [\<lparr>note_id = ''n1'', note_title = ''T'', note_content = ''C'',
                   note_created_at = ''2024-01-01''\<rparr>]\<rparr>)) = ''T'' \<and>
   content (signOut \<lparr>sel_data = None, sel_error = None\<rparr>
     (initial\<lparr>userEmail := Some ''a@x.org'', editingId := Some ''n1'', title := ''T'',
        content := ''C'',
        notes := [\<lparr>note_id = ''n1'', note_title = ''T'', note_content = ''C'',
                   note_created_at = ''2024-01-01''\<rparr>]\<rparr>)) = ''C''"
  by (simp add: signOut_state initial_def)

subsection \<open>The busy flag\<close>

text \<open>
  Every other mutating entry point has \<open>loading\<close> set while its request is outstanding.
\<close>

lemma busy_while_outstanding:
  "(signUp_send s = Outstanding s' \<longrightarrow> loading s') \<and>
   (signIn_send s = Outstanding s' \<longrightarrow> loading s') \<and>
   (addNote_send sess s = Outstanding s' \<longrightarrow> loading s') \<and>
   (deleteNote_send i s = Outstanding s' \<longrightarrow> loading s') \<and>
   (updateNote_send s = Outstanding s' \<longrightarrow> loading s')"
  by (auto simp add: signUp_send_def signIn_send_def addNote_send_def deleteNote_send_def
      updateNote_send_def validateNoteOrAlert_def send_def alert_def Let_def
      split: option.splits sum.splits if_splits)

text \<open>
  Claim C7 says that the busy flag is set while the request of any mutating entry point
  is outstanding. For sign-out it is not: started from an idle state, the sign-out
  request is outstanding with \<open>loading\<close> still false.
\<close>

theorem signOut_send_not_busy:
  "signOut_send (initial\<lparr>userEmail := Some ''a@x.org''\<rparr>) =
     Outstanding (initial\<lparr>userEmail := Some ''a@x.org'', requests := [AuthSignOut]\<rparr>) \<and>
   \<not> loading (initial\<lparr>userEmail := Some ''a@x.org'', requests := [AuthSignOut]\<rparr>)"
  by (simp add: signOut_send_def send_def initial_def)

subsection \<open>Create, update and delete\<close>


lemma updateNote_send_valid:
  "editingId s = Some i \<Longrightarrow> i \<noteq> [] \<Longrightarrow> safeParse (title s) (content s) = Inr clean \<Longrightarrow>
   updateNote_send s =
     Outstanding (s\<lparr>loading := True,
       requests := requests s @ [UpdateNote i (clean_title clean) (clean_content clean)]\<rparr>)"
  by (simp add: updateNote_send_def validateNoteOrAlert_def send_def)



lemma updateNote_outcome:
  assumes "editingId s = Some i" "i \<noteq> []" "safeParse (title s) (content s) = Inr clean"
  shows "updateNote (Some msg) rsess rresp s =
           s\<lparr>loading := False, alerts := alerts s @ [msg],
             requests := requests s @
               [UpdateNote i (clean_title clean) (clean_content clean)]\<rparr>"
    and "updateNote None rsess rresp s =
           (loadNotes (Some i) rsess rresp
              (s\<lparr>loading := True,
                 requests := requests s @
                   [UpdateNote i (clean_title clean) (clean_content clean)],
                 editingId := None, title := [], content := []\<rparr>))
           \<lparr>loading := False\<rparr>"
  using assms
  by (simp_all add: updateNote_def updateNote_send_valid updateNote_resume_def alert_def)

lemma trim_A: "trim ''A'' = ''A''" and trim_B: "trim ''B'' = ''B''"
  by (simp_all add: trim_def trimStart_def trimEnd_def isSpace_def)

lemma safeParse_A_B: "safeParse ''A'' ''B'' = Inr \<lparr>clean_title = ''A'', clean_content = ''B''\<rparr>"
  using safeParse_ok [of "''A''" "''B''"] by (simp add: trim_A trim_B)



lemma updateNote_applied:
  assumes "editingId s = Some i" "i \<noteq> []" "safeParse (title s) (content s) = Inr clean"
  shows "updateNote None None rresp s =
           s\<lparr>editingId := None, title := [], content := [], notes := [], loading := False,
             requests := requests s @
               [UpdateNote i (clean_title clean) (clean_content clean), GetSession]\<rparr>"
    and "sel_error rresp = None \<Longrightarrow> sel_data rresp = Some ns \<Longrightarrow>
         updateNote None (Some ru) rresp s =
           s\<lparr>editingId := None, title := [], content := [], notes := ns, loading := False,
             requests := requests s @
               [UpdateNote i (clean_title clean) (clean_content clean), GetSession,
                SelectNotes ''id,title,content,created_at'' ''created_at'' False]\<rparr>"
    and "sel_error rresp \<noteq> None \<or> sel_data rresp = None \<Longrightarrow>
         updateNote None (Some ru) rresp s =
           s\<lparr>editingId := None, title := [], content := [], loading := False,
             requests := requests s @
               [UpdateNote i (clean_title clean) (clean_content clean), GetSession,
                SelectNotes ''id,title,content,created_at'' ''created_at'' False]\<rparr>"
  using assms
  by (simp_all add: updateNote_outcome loadNotes_no_session loadNotes_fetched loadNotes_failed
      Let_def)



text \<open>
  Without a session the submit button in create mode shows \<open>Please sign in.\<close>, sends
  nothing but \<open>getSession\<close>, and keeps the draft.
\<close>

lemma submit_create_no_session:
  "\<not> truthy (editingId s) \<Longrightarrow>
   submit None err rsess rresp s =
     s\<lparr>loading := False, alerts := alerts s @ [''Please sign in.''],
       requests := requests s @ [GetSession]\<rparr>"
  by (simp add: submit_def addNote_def addNote_send_def alert_def send_def)

lemma submit_send_create_no_session:
  "\<not> truthy (editingId s) \<Longrightarrow>
   submit_send None s =
     Returned (s\<lparr>loading := False, alerts := alerts s @ [''Please sign in.''],
       requests := requests s @ [GetSession]\<rparr>)"
  by (simp add: submit_send_def addNote_send_def alert_def send_def)

text \<open>In edit mode the session plays no part in what the button sends.\<close>

lemma submit_send_edit:
  "editingId s = Some e \<Longrightarrow> e \<noteq> [] \<Longrightarrow> safeParse (title s) (content s) = Inr clean \<Longrightarrow>
   submit_send sess s =
     Outstanding (s\<lparr>loading := True,
       requests := requests s @
         [UpdateNote e (clean_title clean) (clean_content clean)]\<rparr>)"
  by (simp add: submit_send_def updateNote_send_valid)

text \<open>
  Claim C2 says that submitting a draft without a session, in create mode or in edit
  mode, fails with the sign-in message, sends no insert or update, and leaves the state
  apart from the busy flag as it was. In edit mode it does not: submitting the draft
  \<open>A\<close>, \<open>B\<close> for the edit target \<open>n1\<close> without a session sends the update, shows no
  message, and, the update answering without an error, discards the edit target and
  the draft.
\<close>

theorem submit_edit_no_session_sends_update:
  "submit_send None (initial\<lparr>editingId := Some ''n1'', title := ''A'', content := ''B''\<rparr>) =
     Outstanding (initial\<lparr>editingId := Some ''n1'', title := ''A'', content := ''B'',
       loading := True, requests := [UpdateNote ''n1'' ''A'' ''B'']\<rparr>) \<and>
   submit None None None \<lparr>sel_data = None, sel_error = None\<rparr>
     (initial\<lparr>editingId := Some ''n1'', title := ''A'', content := ''B''\<rparr>) =
     initial\<lparr>requests := [UpdateNote ''n1'' ''A'' ''B'', GetSession]\<rparr>"
proof -
  let ?s = "initial\<lparr>editingId := Some ''n1'', title := ''A'', content := ''B''\<rparr>"
  let ?clean = "\<lparr>clean_title = ''A'', clean_content = ''B''\<rparr>"
  have target: "editingId ?s = Some ''n1''" and valid: "safeParse (title ?s) (content ?s) = Inr ?clean"
    by (simp_all add: safeParse_A_B)
  have "submit_send None ?s =
      Outstanding (?s\<lparr>loading := True,
        requests := requests ?s @ [UpdateNote ''n1'' (clean_title ?clean) (clean_content ?clean)]\<rparr>)"
    using submit_send_edit [OF target _ valid] by simp
  moreover have "updateNote None None \<lparr>sel_data = None, sel_error = None\<rparr> ?s =
      ?s\<lparr>editingId := None, title := [], content := [], notes := [], loading := False,
        requests := requests ?s @
          [UpdateNote ''n1'' (clean_title ?clean) (clean_content ?clean), GetSession]\<rparr>"
    using updateNote_applied(1) [OF target _ valid] by simp
  ultimately show ?thesis
    by (simp add: submit_def initial_def)
qed

lemma updateNote_send_no_target: "\<not> truthy (editingId s) \<Longrightarrow> updateNote_send s = Returned s"
  by (cases "editingId s") (simp_all add: updateNote_send_def)

text \<open>
  Claim C10. Without an edit target \<open>updateNote\<close> returns at once: it validates nothing,
  sends nothing, shows nothing, and every state cell and both traces stay as they were.
\<close>

theorem updateNote_noop:
  "\<not> truthy (editingId s) \<Longrightarrow>
   updateNote_send s = Returned s \<and> updateNote err rsess rresp s = s"
  by (simp add: updateNote_def updateNote_send_no_target)

theorem updateNote_noop_witness:
  "\<not> truthy (editingId (initial\<lparr>title := ''A'', content := ''B''\<rparr>)) \<and>
   updateNote_send (initial\<lparr>title := ''A'', content := ''B''\<rparr>) =
     Returned (initial\<lparr>title := ''A'', content := ''B''\<rparr>) \<and>
   updateNote None None \<lparr>sel_data = None, sel_error = None\<rparr>
     (initial\<lparr>title := ''A'', content := ''B''\<rparr>) = initial\<lparr>title := ''A'', content := ''B''\<rparr>"
proof -
  have h: "\<not> truthy (editingId (initial\<lparr>title := ''A'', content := ''B''\<rparr>))"
    by (simp add: initial_def)
  show ?thesis
    using h updateNote_noop [OF h, of None None "\<lparr>sel_data = None, sel_error = None\<rparr>"]
    by simp
qed

end
